theory Spec2Isabelle
  imports Main
begin

section \<open>Order creation and status update of the order-management server\<close>

text \<open>
  The server keeps its data in MongoDB collections reached through Mongoose models.
  A collection is modelled as the list of its documents and \<open>countDocuments\<close> as the length
  of the list. The handlers are modelled as they run once \<open>authenticateToken\<close> has let the
  request pass. The bookkeeping fields that Mongoose maintains by itself (\<open>createdAt\<close>,
  \<open>updatedAt\<close>, \<open>__v\<close>) and the population of references in a response are outside the
  model.

  A JavaScript Number is an IEEE double. The model is polymorphic in the number type
  \<open>'n\<close>, of which only \<open>0\<close>, \<open>+\<close>, \<open>*\<close> and unary minus are used and no law is assumed,
  so every statement holds for the arithmetic the runtime really performs. The example
  data use \<open>int\<close>.
\<close>

subsection \<open>Documents\<close>

text \<open>
  The documents of \<open>productSchema\<close> and \<open>orderSchema\<close>. The field \<open>_id\<close> is \<open>p_id\<close> and
  \<open>o_id\<close>; the \<open>quantity\<close> and \<open>price\<close> of a stored line item are \<open>li_quantity\<close> and
  \<open>li_price\<close>, and the \<open>notes\<close> of an order are \<open>order_notes\<close>.
\<close>

record 'n product_doc =
  p_id :: string
  name :: string
  category :: string
  description :: string
  price :: 'n
  pictures :: "string list"
  stock :: 'n
  isActive :: bool

text \<open>An element of \<open>orderSchema.products\<close>: the fields \<open>product\<close>, \<open>quantity\<close>, \<open>price\<close>.\<close>

record 'n line_item =
  product :: string
  li_quantity :: 'n
  li_price :: 'n

record 'n order_doc =
  o_id :: string
  orderNumber :: "string option"
  customer :: string
  products :: "'n line_item list"
  totalAmount :: 'n
  status :: string
  orderDate :: nat
  order_notes :: "string option"

record 'n db =
  Product :: "'n product_doc list"
  Order :: "'n order_doc list"

text \<open>
  What the libraries decide and the model takes as given: whether Mongoose can cast a
  string to an ObjectId, and whether a Number is NaN.
\<close>

record 'n runtime =
  isObjectId :: "string \<Rightarrow> bool"
  isNaN :: "'n \<Rightarrow> bool"

text \<open>
  What the runtime supplies during one request: the \<open>_id\<close> given to a new document, the
  value of \<open>Date.now\<close> when the document is constructed (the default of \<open>orderDate\<close>) and
  its value when the pre-save hook runs.
\<close>

record env =
  new_id :: string
  date_new :: nat
  date_save :: nat

subsection \<open>Requests and responses\<close>

text \<open>
  The body of \<open>POST /api/orders\<close> is
  \<open>{customer: string, products: [{productId: string, quantity: number}], notes?: string}\<close>;
  every field may be absent (\<open>None\<close>, \<open>Missing\<close>). A \<open>products\<close> field that holds
  something else than an array is \<open>NotArray\<close>; whether that value is truthy does not
  matter, since \<open>Array.isArray\<close> rejects it in the same condition. An element of the
  array that is \<open>null\<close> is \<open>None\<close>.
\<close>

record 'n item =
  productId :: "string option"
  quantity :: "'n option"

datatype 'n products_field = Missing | NotArray | Array "'n item option list"

fun truthy_products :: "'n products_field \<Rightarrow> bool" where
  "truthy_products Missing = False"
| "truthy_products NotArray = True"
| "truthy_products (Array xs) = True"

fun isArray :: "'n products_field \<Rightarrow> bool" where
  "isArray (Array xs) = True"
| "isArray _ = False"

fun elements :: "'n products_field \<Rightarrow> 'n item option list" where
  "elements (Array xs) = xs"
| "elements _ = []"

record 'n order_body =
  req_customer :: "string option"
  req_products :: "'n products_field"
  req_notes :: "string option"

text \<open>
  Errors thrown inside a handler and caught by its \<open>catch\<close> block: the cast of a string
  that is no ObjectId, the failure of schema validation with the paths that fail, the
  duplicate key of a unique index, and the read of a property of \<open>null\<close>.
\<close>

datatype exn = CastError string | ValidationError "string list" | DuplicateKey string | TypeError

text \<open>
  A response is the HTTP status with the JSON body: \<open>{error: <text>}\<close>,
  \<open>{error: error.message}\<close> of a caught error, or the order document.
\<close>

datatype 'n body = Err string | ErrMessage exn | Doc "'n order_doc"

type_synonym 'n response = "nat \<times> 'n body"

subsection \<open>JavaScript primitives\<close>

text \<open>\<open>!s\<close> for a string that may be absent: absent and empty strings are falsy.\<close>

fun truthy_string :: "string option \<Rightarrow> bool" where
  "truthy_string None = False"
| "truthy_string (Some s) = (s \<noteq> [])"

text \<open>\<open>!q\<close> for a number that may be absent: both zeros and NaN are falsy.\<close>

fun truthy_number :: "('n::{zero,uminus}) runtime \<Rightarrow> 'n option \<Rightarrow> bool" where
  "truthy_number rt None = False"
| "truthy_number rt (Some q) = (\<not> (q = 0 \<or> q = - 0 \<or> isNaN rt q))"

definition digit :: "nat \<Rightarrow> char" where
  "digit d = ''0123456789'' ! d"

text \<open>\<open>Number.prototype.toString\<close> on a non-negative integer: its decimal digits.\<close>

function toString :: "nat \<Rightarrow> string" where
  "toString n = (if n < 10 then [digit n] else toString (n div 10) @ [digit (n mod 10)])"
  by pat_completeness auto
termination
  by (relation "measure id") auto

declare toString.simps [simp del]

text \<open>\<open>s.padStart(n, c)\<close> with a one-character filler.\<close>

definition padStart :: "string \<Rightarrow> nat \<Rightarrow> char \<Rightarrow> string" where
  "padStart s n c = replicate (n - length s) c @ s"

text \<open>\<open>xs.join(sep)\<close>.\<close>

fun join :: "string \<Rightarrow> string list \<Rightarrow> string" where
  "join sep [] = []"
| "join sep [x] = x"
| "join sep (x # y # ys) = x @ sep @ join sep (y # ys)"

subsection \<open>Mongoose models\<close>

text \<open>The document stored under an \<open>_id\<close>: the first one of the collection that has it.\<close>

definition findById :: "('d \<Rightarrow> string) \<Rightarrow> 'd list \<Rightarrow> string \<Rightarrow> 'd option" where
  "findById ident coll i = find (\<lambda>d. ident d = i) coll"

text \<open>
  \<open>Product.findById(id)\<close>: the identifier is cast to an ObjectId first, and a string
  that cannot be cast makes the query throw; otherwise the stored product or \<open>null\<close>.
\<close>

definition Product_findById ::
  "'n runtime \<Rightarrow> 'n db \<Rightarrow> string \<Rightarrow> exn + 'n product_doc option" where
  "Product_findById rt d i =
     (if isObjectId rt i then Inr (findById p_id (Product d) i) else Inl (CastError i))"

text \<open>Replace the first document with the given \<open>_id\<close>, as an update of one document does.\<close>

fun update_first :: "('d \<Rightarrow> string) \<Rightarrow> string \<Rightarrow> ('d \<Rightarrow> 'd) \<Rightarrow> 'd list \<Rightarrow> 'd list" where
  "update_first ident i f [] = []"
| "update_first ident i f (d # ds) =
     (if ident d = i then f d # ds else d # update_first ident i f ds)"

definition status_enum :: "string list" where
  "status_enum = [''placed'', ''shipped'', ''delivered'', ''cancelled'']"

text \<open>
  The validation of an order against \<open>orderSchema\<close>, as the paths that fail: \<open>customer\<close>
  and the \<open>product\<close> of a line item must cast to an ObjectId, the numbers must cast to a
  Number, which NaN does not, and the status must be in the enum.
\<close>

definition validate :: "'n runtime \<Rightarrow> 'n order_doc \<Rightarrow> string list" where
  "validate rt ord =
     (if isObjectId rt (customer ord) then [] else [''customer'']) @
     (if list_all (\<lambda>li. isObjectId rt (product li) \<and> \<not> isNaN rt (li_quantity li) \<and>
                          \<not> isNaN rt (li_price li)) (products ord)
      then [] else [''products'']) @
     (if isNaN rt (totalAmount ord) then [''totalAmount''] else []) @
     (if status ord \<in> set status_enum then [] else [''status''])"

text \<open>
  \<open>orderSchema.pre('save')\<close>: an order without an order number gets
  \<open>ORD-${Date.now()}-${(count + 1).toString().padStart(4, '0')}\<close>, where \<open>count\<close> is the
  number of stored orders.
\<close>

definition generate_orderNumber :: "nat \<Rightarrow> nat \<Rightarrow> string" where
  "generate_orderNumber now count =
     ''ORD-'' @ toString now @ ''-'' @ padStart (toString (count + 1)) 4 CHR ''0''"

definition pre_save :: "env \<Rightarrow> 'n db \<Rightarrow> 'n order_doc \<Rightarrow> 'n order_doc" where
  "pre_save e d ord =
     (if \<not> truthy_string (orderNumber ord)
      then ord\<lparr>orderNumber := Some (generate_orderNumber (date_save e) (length (Order d)))\<rparr>
      else ord)"

text \<open>
  \<open>order.save()\<close>: the document is validated, then the hook runs, then the document is
  inserted; the unique index on \<open>orderNumber\<close> rejects a number that a stored order
  already has.
\<close>

definition save ::
  "'n runtime \<Rightarrow> env \<Rightarrow> 'n db \<Rightarrow> 'n order_doc \<Rightarrow> exn + ('n order_doc \<times> 'n db)" where
  "save rt e d ord =
     (if validate rt ord \<noteq> [] then Inl (ValidationError (validate rt ord))
      else let ord' = pre_save e d ord in
        if orderNumber ord' \<in> set (map orderNumber (Order d))
        then Inl (DuplicateKey (case orderNumber ord' of None \<Rightarrow> [] | Some n \<Rightarrow> n))
        else Inr (ord', d\<lparr>Order := Order d @ [ord']\<rparr>))"

text \<open>
  \<open>Order.findByIdAndUpdate(id, {status}, {new: true, runValidators: true})\<close>: the enum
  validator of the schema runs on the new status and the identifier is cast to an
  ObjectId, either of which may throw; then the first order with that \<open>_id\<close> gets the
  status and is returned as updated; \<open>null\<close> when there is none.
\<close>

definition Order_findByIdAndUpdate ::
  "'n runtime \<Rightarrow> 'n db \<Rightarrow> string \<Rightarrow> string \<Rightarrow> exn + ('n order_doc option \<times> 'n db)" where
  "Order_findByIdAndUpdate rt d i st =
     (if st \<notin> set status_enum then Inl (ValidationError [''status''])
      else if \<not> isObjectId rt i then Inl (CastError i)
      else case findById o_id (Order d) i of
             None \<Rightarrow> Inr (None, d)
           | Some ord \<Rightarrow>
               Inr (Some (ord\<lparr>status := st\<rparr>),
                    d\<lparr>Order := update_first o_id i (\<lambda>x. x\<lparr>status := st\<rparr>) (Order d)\<rparr>))"

text \<open>
  \<open>Product.findByIdAndUpdate(id, req.body, {new: true, runValidators: true})\<close>, with the
  field assignments of the body as the function \<open>upd\<close>.
\<close>

definition Product_findByIdAndUpdate ::
  "'n runtime \<Rightarrow> 'n db \<Rightarrow> string \<Rightarrow> ('n product_doc \<Rightarrow> 'n product_doc)
     \<Rightarrow> exn + ('n product_doc option \<times> 'n db)" where
  "Product_findByIdAndUpdate rt d i upd =
     (if \<not> isObjectId rt i then Inl (CastError i)
      else case findById p_id (Product d) i of
        None \<Rightarrow> Inr (None, d)
      | Some p \<Rightarrow> Inr (Some (upd p), d\<lparr>Product := update_first p_id i upd (Product d)\<rparr>))"

subsection \<open>POST /api/orders\<close>

text \<open>
  The loop over the requested items, with the running \<open>totalAmount\<close> (here \<open>tot\<close>) and
  \<open>orderProducts\<close>. It returns the response of the first early \<open>return\<close> or of the
  \<open>catch\<close> block, or both accumulators.
\<close>

fun resolve_items ::
  "('n::{zero,plus,times,uminus}) runtime \<Rightarrow> 'n db \<Rightarrow> 'n item option list \<Rightarrow> 'n
     \<Rightarrow> 'n line_item list \<Rightarrow> 'n response + ('n \<times> 'n line_item list)" where
  "resolve_items rt d [] tot orderProducts = Inr (tot, orderProducts)"
| "resolve_items rt d (None # rest) tot orderProducts = Inl (500, ErrMessage TypeError)"
| "resolve_items rt d (Some it # rest) tot orderProducts =
     (if \<not> truthy_string (productId it) \<or> \<not> truthy_number rt (quantity it)
      then Inl (400, Err ''Each product must have productId and quantity'')
      else case (productId it, quantity it) of
        (Some i, Some q) \<Rightarrow>
          (case Product_findById rt d i of
             Inl err \<Rightarrow> Inl (500, ErrMessage err)
           | Inr None \<Rightarrow> Inl (400, Err (''Product not found: '' @ i))
           | Inr (Some p) \<Rightarrow>
               resolve_items rt d rest (tot + price p * q)
                 (orderProducts @ [\<lparr>product = p_id p, li_quantity = q, li_price = price p\<rparr>]))
      | _ \<Rightarrow> Inl (400, Err ''Each product must have productId and quantity''))"

text \<open>
  \<open>new Order({customer, products: orderProducts, totalAmount, notes, status: 'placed'})\<close>:
  no order number yet, \<open>orderDate\<close> by its default.
\<close>

definition new_Order ::
  "env \<Rightarrow> string option \<Rightarrow> 'n line_item list \<Rightarrow> 'n \<Rightarrow> string option \<Rightarrow> 'n order_doc" where
  "new_Order e c orderProducts tot n =
     \<lparr>o_id = new_id e, orderNumber = None,
      customer = (case c of Some x \<Rightarrow> x | None \<Rightarrow> []),
      products = orderProducts, totalAmount = tot, status = ''placed'',
      orderDate = date_new e, order_notes = n\<rparr>"

definition post_orders ::
  "('n::{zero,plus,times,uminus}) runtime \<Rightarrow> env \<Rightarrow> 'n db \<Rightarrow> 'n order_body
     \<Rightarrow> 'n response \<times> 'n db" where
  "post_orders rt e d b =
     (if \<not> truthy_string (req_customer b) \<or> \<not> truthy_products (req_products b)
         \<or> \<not> isArray (req_products b) \<or> length (elements (req_products b)) = 0
      then ((400, Err ''Customer and products are required''), d)
      else case resolve_items rt d (elements (req_products b)) 0 [] of
        Inl r \<Rightarrow> (r, d)
      | Inr (tot, orderProducts) \<Rightarrow>
          (case save rt e d (new_Order e (req_customer b) orderProducts tot (req_notes b)) of
             Inl err \<Rightarrow> ((500, ErrMessage err), d)
           | Inr (ord, d') \<Rightarrow> ((201, Doc ord), d')))"

subsection \<open>PUT /api/orders/:id/status\<close>

definition validStatuses :: "string list" where
  "validStatuses = [''placed'', ''shipped'', ''delivered'', ''cancelled'']"

definition put_order_status ::
  "'n runtime \<Rightarrow> 'n db \<Rightarrow> string \<Rightarrow> string option \<Rightarrow> 'n response \<times> 'n db" where
  "put_order_status rt d i st =
     (if \<not> truthy_string st then ((400, Err ''Status is required''), d)
      else case st of
        None \<Rightarrow> ((400, Err ''Status is required''), d)
      | Some s \<Rightarrow>
          if s \<notin> set validStatuses
          then ((400, Err (''Invalid status. Must be one of: '' @ join '', '' validStatuses)), d)
          else (case Order_findByIdAndUpdate rt d i s of
                  Inl err \<Rightarrow> ((500, ErrMessage err), d)
                | Inr (None, d') \<Rightarrow> ((404, Err ''Order not found''), d')
                | Inr (Some ord, d') \<Rightarrow> ((200, Doc ord), d')))"

subsection \<open>PUT /api/products/:id\<close>

text \<open>
  Only the effect on the database matters here: the database after the update, or the
  unchanged one when the update throws.
\<close>

definition put_product ::
  "'n runtime \<Rightarrow> 'n db \<Rightarrow> string \<Rightarrow> ('n product_doc \<Rightarrow> 'n product_doc) \<Rightarrow> 'n db" where
  "put_product rt d i upd =
     (case Product_findByIdAndUpdate rt d i upd of Inl err \<Rightarrow> d | Inr (p, d') \<Rightarrow> d')"

subsection \<open>Vocabulary of the properties\<close>

text \<open>
  A requested item passes the loop body: it is an object, identifier and quantity are
  truthy, the identifier casts to an ObjectId and is that of a stored product.
\<close>

definition resolvable :: "('n::{zero,uminus}) runtime \<Rightarrow> 'n db \<Rightarrow> 'n item option \<Rightarrow> bool" where
  "resolvable rt d x =
     (case x of
        None \<Rightarrow> False
      | Some it \<Rightarrow>
          truthy_string (productId it) \<and> truthy_number rt (quantity it) \<and>
          (case productId it of
             None \<Rightarrow> False
           | Some i \<Rightarrow>
               isObjectId rt i \<and>
               (case findById p_id (Product d) i of None \<Rightarrow> False | Some p \<Rightarrow> True)))"

text \<open>A requested item is an object with a truthy identifier and a truthy quantity.\<close>

definition well_formed :: "('n::{zero,uminus}) runtime \<Rightarrow> 'n item option \<Rightarrow> bool" where
  "well_formed rt x =
     (case x of
        None \<Rightarrow> False
      | Some it \<Rightarrow> truthy_string (productId it) \<and> truthy_number rt (quantity it))"

text \<open>
  A stored line item is the snapshot of a requested item: same product, same quantity,
  and the price that the product has in the database.
\<close>

definition snapshot_of :: "'n db \<Rightarrow> 'n item option \<Rightarrow> 'n line_item \<Rightarrow> bool" where
  "snapshot_of d x li =
     (case x of
        None \<Rightarrow> False
      | Some it \<Rightarrow>
          productId it = Some (product li) \<and> quantity it = Some (li_quantity li) \<and>
          (case findById p_id (Product d) (product li) of
             None \<Rightarrow> False
           | Some p \<Rightarrow> li_price li = price p))"

text \<open>
  The sum of price times quantity over line items, added up from left to right in the
  arithmetic of the number type, as the loop does.
\<close>

definition line_sum :: "'n::{plus,times} \<Rightarrow> 'n line_item list \<Rightarrow> 'n" where
  "line_sum start ls = foldl (\<lambda>a li. a + li_price li * li_quantity li) start ls"

text \<open>The total that the loop computes for the requested items, when it gets through.\<close>

definition computed_total ::
  "('n::{zero,plus,times,uminus}) runtime \<Rightarrow> 'n db \<Rightarrow> 'n item option list \<Rightarrow> 'n option" where
  "computed_total rt d items =
     (case resolve_items rt d items 0 [] of Inl r \<Rightarrow> None | Inr (tot, ops) \<Rightarrow> Some tot)"

text \<open>The database with the active flag of every product replaced by \<open>g\<close> of it.\<close>

definition with_flags :: "('n product_doc \<Rightarrow> bool) \<Rightarrow> 'n db \<Rightarrow> 'n db" where
  "with_flags g d = d\<lparr>Product := map (\<lambda>p. p\<lparr>isActive := g p\<rparr>) (Product d)\<rparr>"

subsection \<open>Example data\<close>

text \<open>
  In the examples the strings that cast to an ObjectId are those of 24 hexadecimal
  digits, and no number is NaN.
\<close>

definition hex24 :: "string \<Rightarrow> bool" where
  "hex24 s = (length s = 24 \<and> list_all (\<lambda>c. c \<in> set ''0123456789abcdefABCDEF'') s)"

definition rt0 :: "int runtime" where
  "rt0 = \<lparr>isObjectId = hex24, isNaN = (\<lambda>q. False)\<rparr>"

text \<open>
  The identifiers of two stored products, of no product, of a customer, of a stored order
  and of no order.
\<close>

definition pid1 :: string where
  "pid1 = ''64b7f0c2a1d3e4f5a6b7c801''"

definition pid2 :: string where
  "pid2 = ''64b7f0c2a1d3e4f5a6b7c802''"

definition pid9 :: string where
  "pid9 = ''64b7f0c2a1d3e4f5a6b7c809''"

definition cid1 :: string where
  "cid1 = ''64b7f0c2a1d3e4f5a6b7c8c1''"

definition oid1 :: string where
  "oid1 = ''64b7f0c2a1d3e4f5a6b7c8d1''"

definition oid9 :: string where
  "oid9 = ''64b7f0c2a1d3e4f5a6b7c8d9''"

definition mug :: "int product_doc" where
  "mug = \<lparr>p_id = pid1, name = ''Coffee Mug'', category = ''Home & Kitchen'',
           description = ''Ceramic coffee mug'', price = 10, pictures = [], stock = 100,
           isActive = True\<rparr>"

text \<open>A product that has been deactivated.\<close>

definition bag :: "int product_doc" where
  "bag = \<lparr>p_id = pid2, name = ''Laptop Bag'', category = ''Accessories'',
           description = ''Durable laptop bag'', price = 5, pictures = [], stock = 0,
           isActive = False\<rparr>"

definition db0 :: "int db" where
  "db0 = \<lparr>Product = [mug, bag], Order = []\<rparr>"

definition env0 :: env where
  "env0 = \<lparr>new_id = oid1, date_new = 1700000000000, date_save = 1700000000001\<rparr>"

definition items0 :: "int item option list" where
  "items0 = [Some \<lparr>productId = Some pid1, quantity = Some 2\<rparr>,
             Some \<lparr>productId = Some pid2, quantity = Some 3\<rparr>]"

definition body0 :: "int order_body" where
  "body0 = \<lparr>req_customer = Some cid1, req_products = Array items0, req_notes = None\<rparr>"

definition lines0 :: "int line_item list" where
  "lines0 = [\<lparr>product = pid1, li_quantity = 2, li_price = 10\<rparr>,
             \<lparr>product = pid2, li_quantity = 3, li_price = 5\<rparr>]"

definition ord0 :: "int order_doc" where
  "ord0 = \<lparr>o_id = oid1, orderNumber = Some ''ORD-1700000000001-0001'', customer = cid1,
            products = lines0, totalAmount = 35, status = ''placed'',
            orderDate = 1700000000000, order_notes = None\<rparr>"

text \<open>A database whose only order has been delivered.\<close>

definition db_delivered :: "int db" where
  "db_delivered = \<lparr>Product = [mug, bag], Order = [ord0\<lparr>status := ''delivered''\<rparr>]\<rparr>"

text \<open>A database with 9999 stored orders.\<close>

definition db_full :: "int db" where
  "db_full = \<lparr>Product = [mug, bag], Order = replicate 9999 ord0\<rparr>"

text \<open>
  A database whose only order carries the number that the hook generates next at
  \<open>date_save env0\<close>.
\<close>

definition db_dup :: "int db" where
  "db_dup = \<lparr>Product = [mug, bag],
             Order = [ord0\<lparr>orderNumber := Some ''ORD-1700000000001-0002''\<rparr>]\<rparr>"



definition items_zero :: "int item option list" where
  "items_zero = [Some \<lparr>productId = Some pid1, quantity = Some 1\<rparr>,
                 Some \<lparr>productId = Some pid2, quantity = Some 0\<rparr>]"

definition items_negative :: "int item option list" where
  "items_negative = [Some \<lparr>productId = Some pid1, quantity = Some (- 1)\<rparr>]"

definition ord_negative :: "int order_doc" where
  "ord_negative = \<lparr>o_id = oid1, orderNumber = Some ''ORD-1700000000001-0001'',
      customer = cid1, products = [\<lparr>product = pid1, li_quantity = - 1, li_price = 10\<rparr>],
      totalAmount = - 10, status = ''placed'', orderDate = 1700000000000, order_notes = None\<rparr>"

section \<open>Properties\<close>

subsection \<open>Auxiliary facts\<close>

lemma toString_not_Nil: "toString n \<noteq> []"
  by (subst toString.simps) simp

lemma length_toString_le: "0 < k \<Longrightarrow> length (toString n) \<le> k \<longleftrightarrow> n < 10 ^ k"
proof (induction n arbitrary: k rule: toString.induct)
  case (1 n)
  show ?case
  proof (cases "n < 10")
    case True
    have "(10::nat) ^ 1 \<le> 10 ^ k" using 1(2) by (intro power_increasing) auto
    with True 1(2) show ?thesis by (simp add: toString.simps[of n] Suc_le_eq)
  next
    case False
    show ?thesis
    proof (cases k)
      case 0 with 1(2) show ?thesis by simp
    next
      case (Suc j)
      show ?thesis
      proof (cases "j = 0")
        case True
        with False Suc show ?thesis by (simp add: toString.simps[of n] toString_not_Nil)
      next
        case jpos: False
        have "length (toString (n div 10)) \<le> j \<longleftrightarrow> n div 10 < 10 ^ j"
          using 1(1)[OF False, of j] jpos by simp
        moreover have "n div 10 < 10 ^ j \<longleftrightarrow> n < 10 ^ Suc j"
          by (simp add: div_less_iff_less_mult mult.commute)
        ultimately show ?thesis using False Suc by (simp add: toString.simps[of n])
      qed
    qed
  qed
qed

lemma padStart_length: "length (padStart s n c) = max n (length s)"
  by (simp add: padStart_def)

lemma findById_Some_ident: "findById ident coll i = Some x \<Longrightarrow> ident x = i \<and> x \<in> set coll"
  unfolding findById_def by (induction coll) (auto split: if_splits)

lemma findById_update_first:
  assumes "\<And>x. ident (f x) = ident x"
  shows "findById ident (update_first ident i f coll) j =
         (if j = i then map_option f (findById ident coll i) else findById ident coll j)"
  unfolding findById_def using assms by (induction coll) auto

lemma update_first_frame:
  assumes "\<And>x. g (f x) = g x"
  shows "map g (update_first ident i f coll) = map g coll"
  using assms by (induction coll) auto

text \<open>The loop, one item at a time.\<close>

lemma resolve_items_step:
  assumes "resolvable rt d x"
  shows "\<exists>it i q p. x = Some it \<and> productId it = Some i \<and> quantity it = Some q \<and>
           isObjectId rt i \<and> \<not> isNaN rt q \<and> findById p_id (Product d) i = Some p \<and> p_id p = i \<and>
           (\<forall>rest tot acc. resolve_items rt d (x # rest) tot acc =
              resolve_items rt d rest (tot + price p * q)
                (acc @ [\<lparr>product = i, li_quantity = q, li_price = price p\<rparr>]))"
proof -
  from assms obtain it where x: "x = Some it" by (cases x) (auto simp: resolvable_def)
  from assms x obtain i where i: "productId it = Some i" "i \<noteq> []" "isObjectId rt i"
    by (cases "productId it") (auto simp: resolvable_def)
  from assms x obtain q where q: "quantity it = Some q" "truthy_number rt (Some q)"
    by (cases "quantity it") (auto simp: resolvable_def)
  from assms x i obtain p where p: "findById p_id (Product d) i = Some p"
    by (cases "findById p_id (Product d) i") (auto simp: resolvable_def)
  have pid: "p_id p = i" using findById_Some_ident[OF p] by simp
  have "\<forall>rest tot acc. resolve_items rt d (x # rest) tot acc =
              resolve_items rt d rest (tot + price p * q)
                (acc @ [\<lparr>product = i, li_quantity = q, li_price = price p\<rparr>])"
    using x i q p pid by (simp add: Product_findById_def)
  with x i q p pid show ?thesis by auto
qed

lemma resolve_items_Inl:
  "resolve_items rt d items tot acc = Inl r \<Longrightarrow> fst r = 400 \<or> fst r = 500"
proof (induction items arbitrary: tot acc)
  case Nil
  then show ?case by simp
next
  case (Cons x rest)
  show ?case
  proof (cases x)
    case None
    with Cons.prems show ?thesis by auto
  next
    case (Some it)
    with Cons show ?thesis
      by (auto simp: Product_findById_def split: if_splits option.splits)
  qed
qed

lemma resolve_items_Inr:
  "resolve_items rt d items tot acc = Inr (tot', ops) \<Longrightarrow>
   \<exists>new. ops = acc @ new \<and> list_all2 (snapshot_of d) items new \<and> tot' = line_sum tot new \<and>
         (\<forall>x\<in>set items. resolvable rt d x) \<and>
         list_all (\<lambda>li. isObjectId rt (product li) \<and> \<not> isNaN rt (li_quantity li)) new \<and>
         (\<forall>li\<in>set new. \<exists>p\<in>set (Product d). li_price li = price p)"
proof (induction items arbitrary: tot acc)
  case Nil
  then show ?case by (simp add: line_sum_def)
next
  case (Cons x rest)
  from Cons.prems obtain it where x: "x = Some it" by (cases x) auto
  from Cons.prems x obtain i q p where
    i: "productId it = Some i" "i \<noteq> []" "isObjectId rt i" and
    q: "quantity it = Some q" "truthy_number rt (Some q)" and
    p: "findById p_id (Product d) i = Some p" and
    rec: "resolve_items rt d rest (tot + price p * q)
            (acc @ [\<lparr>product = p_id p, li_quantity = q, li_price = price p\<rparr>]) = Inr (tot', ops)"
    by (auto simp: Product_findById_def split: if_splits option.splits)
  from Cons.IH[OF rec] obtain new where
    new: "ops = (acc @ [\<lparr>product = p_id p, li_quantity = q, li_price = price p\<rparr>]) @ new"
      "list_all2 (snapshot_of d) rest new" "tot' = line_sum (tot + price p * q) new"
      "\<forall>x\<in>set rest. resolvable rt d x"
      "list_all (\<lambda>li. isObjectId rt (product li) \<and> \<not> isNaN rt (li_quantity li)) new"
      "\<forall>li\<in>set new. \<exists>p\<in>set (Product d). li_price li = price p"
    by blast
  have pid: "p_id p = i" "p \<in> set (Product d)" using findById_Some_ident[OF p] by simp_all
  let ?li = "\<lparr>product = p_id p, li_quantity = q, li_price = price p\<rparr>"
  have s: "snapshot_of d x ?li" using x i q p pid by (simp add: snapshot_of_def)
  have r: "resolvable rt d x" using x i q p by (simp add: resolvable_def)
  have v: "isObjectId rt (product ?li) \<and> \<not> isNaN rt (li_quantity ?li)"
    using i q pid by simp
  have pr: "\<exists>p'\<in>set (Product d). li_price ?li = price p'" using pid by auto
  from new s r v pr show ?case
    by (intro exI[of _ "?li # new"]) (simp add: line_sum_def)
qed

lemma resolve_items_resolvable:
  "\<forall>x\<in>set items. resolvable rt d x \<Longrightarrow> \<exists>r. resolve_items rt d items tot acc = Inr r"
proof (induction items arbitrary: tot acc)
  case Nil
  then show ?case by simp
next
  case (Cons x rest)
  from Cons.prems have "resolvable rt d x" by simp
  from resolve_items_step[OF this] Cons.IH Cons.prems show ?case by fastforce
qed

lemma resolve_items_prefix:
  "\<forall>x\<in>set pre. resolvable rt d x \<Longrightarrow>
   \<exists>tot' acc'. resolve_items rt d (pre @ rest) tot acc = resolve_items rt d rest tot' acc'"
proof (induction pre arbitrary: tot acc)
  case Nil
  then show ?case by auto
next
  case (Cons x pre)
  from Cons.prems have "resolvable rt d x" by simp
  from resolve_items_step[OF this] Cons.IH Cons.prems show ?case by fastforce
qed

lemma resolve_items_unresolved:
  assumes "\<exists>x\<in>set items. \<not> resolvable rt d x"
  shows "\<exists>r. resolve_items rt d items tot acc = Inl r"
proof (cases "resolve_items rt d items tot acc")
  case (Inl r)
  then show ?thesis by simp
next
  case (Inr r)
  then obtain tot' ops where "resolve_items rt d items tot acc = Inr (tot', ops)"
    by (cases r) auto
  from resolve_items_Inr[OF this] assms show ?thesis by auto
qed

text \<open>The validation message of the loop comes from an item that is not well-formed.\<close>

lemma resolve_items_well_formed:
  "\<forall>x\<in>set items. well_formed rt x \<Longrightarrow>
   resolve_items rt d items tot acc \<noteq>
     Inl (400, Err ''Each product must have productId and quantity'')"
proof (induction items arbitrary: tot acc)
  case Nil
  then show ?case by simp
next
  case (Cons x rest)
  from Cons.prems obtain it i q where
    x: "x = Some it" "productId it = Some i" "i \<noteq> []" "quantity it = Some q"
       "truthy_number rt (Some q)"
    by (cases x; cases "productId (the x)"; cases "quantity (the x)")
       (auto simp: well_formed_def)
  from Cons.prems have rest: "\<forall>x\<in>set rest. well_formed rt x" by simp
  show ?case
  proof (cases "Product_findById rt d i")
    case (Inl err)
    with x show ?thesis by simp
  next
    case (Inr r)
    show ?thesis
    proof (cases r)
      case None
      with Inr x show ?thesis by simp
    next
      case (Some p)
      with Inr x Cons.IH[OF rest] show ?thesis by simp
    qed
  qed
qed

text \<open>The status update.\<close>

lemma valid_status_truthy: "s \<in> set validStatuses \<Longrightarrow> truthy_string (Some s)"
  by (auto simp: validStatuses_def)

lemma valid_status_enum: "s \<in> set validStatuses \<Longrightarrow> s \<in> set status_enum"
  by (simp add: validStatuses_def status_enum_def)

lemma put_order_status_valid:
  "s \<in> set validStatuses \<Longrightarrow>
   put_order_status rt d i (Some s) =
     (if \<not> isObjectId rt i then ((500, ErrMessage (CastError i)), d)
      else case findById o_id (Order d) i of
        None \<Rightarrow> ((404, Err ''Order not found''), d)
      | Some ord \<Rightarrow> ((200, Doc (ord\<lparr>status := s\<rparr>)),
                     d\<lparr>Order := update_first o_id i (\<lambda>x. x\<lparr>status := s\<rparr>) (Order d)\<rparr>))"
  using valid_status_truthy[of s] valid_status_enum[of s]
  by (simp add: put_order_status_def Order_findByIdAndUpdate_def split: option.splits)

lemma put_order_status_200:
  assumes "put_order_status rt d i st = ((200, Doc ord'), d')"
  shows "\<exists>s ord. st = Some s \<and> s \<in> set validStatuses \<and> isObjectId rt i \<and>
           findById o_id (Order d) i = Some ord \<and> ord' = ord\<lparr>status := s\<rparr> \<and>
           d' = d\<lparr>Order := update_first o_id i (\<lambda>x. x\<lparr>status := s\<rparr>) (Order d)\<rparr>"
proof (cases st)
  case None
  with assms show ?thesis by (simp add: put_order_status_def)
next
  case (Some s)
  show ?thesis
  proof (cases "s \<in> set validStatuses")
    case True
    with assms Some show ?thesis
      by (auto simp: put_order_status_valid split: option.splits if_splits)
  next
    case False
    with assms Some show ?thesis
      by (simp add: put_order_status_def split: if_splits)
  qed
qed

text \<open>Saving a new order.\<close>

lemma save_Inr:
  "save rt e d x = Inr (ord, d') \<Longrightarrow>
   validate rt x = [] \<and> ord = pre_save e d x \<and> d' = d\<lparr>Order := Order d @ [ord]\<rparr> \<and>
   orderNumber ord \<notin> set (map orderNumber (Order d))"
  by (auto simp: save_def Let_def split: if_splits)

lemma pre_save_new_Order:
  "pre_save e d (new_Order e c ops tot n) =
     (new_Order e c ops tot n)
       \<lparr>orderNumber := Some (generate_orderNumber (date_save e) (length (Order d)))\<rparr>"
  by (simp add: pre_save_def new_Order_def)

lemma save_new_Order:
  "validate rt (new_Order e c ops tot n) = [] \<Longrightarrow>
   save rt e d (new_Order e c ops tot n) =
     (if Some (generate_orderNumber (date_save e) (length (Order d)))
           \<in> set (map orderNumber (Order d))
      then Inl (DuplicateKey (generate_orderNumber (date_save e) (length (Order d))))
      else Inr ((new_Order e c ops tot n)
                  \<lparr>orderNumber := Some (generate_orderNumber (date_save e) (length (Order d)))\<rparr>,
                d\<lparr>Order := Order d @
                   [(new_Order e c ops tot n)
                      \<lparr>orderNumber :=
                         Some (generate_orderNumber (date_save e) (length (Order d)))\<rparr>]\<rparr>))"
  by (simp add: save_def pre_save_new_Order Let_def)

lemma validate_new_Order:
  "validate rt (new_Order e (Some c) ops tot n) = [] \<longleftrightarrow>
     isObjectId rt c \<and>
     list_all (\<lambda>li. isObjectId rt (product li) \<and> \<not> isNaN rt (li_quantity li) \<and>
                     \<not> isNaN rt (li_price li)) ops \<and>
     \<not> isNaN rt tot"
  by (simp add: validate_def new_Order_def status_enum_def)

text \<open>The creation of an order.\<close>

lemma post_orders_Array:
  assumes "truthy_string (req_customer b)" and "req_products b = Array items" and "items \<noteq> []"
  shows "post_orders rt e d b =
     (case resolve_items rt d items 0 [] of
        Inl r \<Rightarrow> (r, d)
      | Inr (tot, ops) \<Rightarrow>
          (case save rt e d (new_Order e (req_customer b) ops tot (req_notes b)) of
             Inl err \<Rightarrow> ((500, ErrMessage err), d)
           | Inr (ord, d') \<Rightarrow> ((201, Doc ord), d')))"
  using assms by (simp add: post_orders_def)

lemma post_orders_rejected:
  assumes "\<not> truthy_string (req_customer b) \<or> \<not> isArray (req_products b) \<or>
           elements (req_products b) = []"
  shows "post_orders rt e d b = ((400, Err ''Customer and products are required''), d)"
  using assms by (auto simp: post_orders_def)

lemma post_orders_201:
  assumes "post_orders rt e d b = ((201, Doc ord), d')"
  shows "\<exists>tot ops. truthy_string (req_customer b) \<and>
           resolve_items rt d (elements (req_products b)) 0 [] = Inr (tot, ops) \<and>
           save rt e d (new_Order e (req_customer b) ops tot (req_notes b)) = Inr (ord, d')"
proof (cases "\<not> truthy_string (req_customer b) \<or> \<not> isArray (req_products b) \<or>
              elements (req_products b) = []")
  case True
  from post_orders_rejected[OF this] assms show ?thesis by simp
next
  case False
  then obtain items where items: "req_products b = Array items" "items \<noteq> []"
    by (cases "req_products b") auto
  from False have c: "truthy_string (req_customer b)" by simp
  show ?thesis
  proof (cases "resolve_items rt d items 0 []")
    case (Inl r)
    with resolve_items_Inl[OF Inl] assms show ?thesis
      by (auto simp: post_orders_Array[OF c items])
  next
    case (Inr r)
    with assms c items show ?thesis
      by (auto simp: post_orders_Array[OF c items] split: prod.splits sum.splits)
  qed
qed

lemma post_orders_unresolved:
  assumes "\<exists>x\<in>set (elements (req_products b)). \<not> resolvable rt d x"
  shows "(fst (fst (post_orders rt e d b)) = 400 \<or> fst (fst (post_orders rt e d b)) = 500) \<and>
         snd (post_orders rt e d b) = d"
proof (cases "\<not> truthy_string (req_customer b) \<or> \<not> isArray (req_products b) \<or>
              elements (req_products b) = []")
  case True
  from post_orders_rejected[OF this] show ?thesis by simp
next
  case False
  then obtain items where items: "req_products b = Array items" "items \<noteq> []"
    by (cases "req_products b") auto
  from False have c: "truthy_string (req_customer b)" by simp
  from assms items have "\<exists>x\<in>set items. \<not> resolvable rt d x" by simp
  from resolve_items_unresolved[OF this, of 0 "[]"] obtain r where
    r: "resolve_items rt d items 0 [] = Inl r" by blast
  from resolve_items_Inl[OF r] r show ?thesis
    by (simp add: post_orders_Array[OF c items])
qed

lemma post_orders_at:
  assumes "truthy_string (req_customer b)" and "req_products b = Array (pre @ x # post)"
    and "\<forall>y\<in>set pre. resolvable rt d y"
  shows "\<exists>tot acc. post_orders rt e d b =
     (case resolve_items rt d (x # post) tot acc of
        Inl r \<Rightarrow> (r, d)
      | Inr (tot, ops) \<Rightarrow>
          (case save rt e d (new_Order e (req_customer b) ops tot (req_notes b)) of
             Inl err \<Rightarrow> ((500, ErrMessage err), d)
           | Inr (ord, d') \<Rightarrow> ((201, Doc ord), d')))"
proof -
  from resolve_items_prefix[OF assms(3), of "x # post" 0 "[]"] obtain tot acc where
    "resolve_items rt d (pre @ x # post) 0 [] = resolve_items rt d (x # post) tot acc" by blast
  then show ?thesis
    using post_orders_Array[OF assms(1,2), of rt e d] by auto
qed

text \<open>A request that gets through the loop with a document that passes validation.\<close>

lemma request_validates:
  assumes "req_customer b = Some c" and "isObjectId rt c"
    and "\<forall>p\<in>set (Product d). \<not> isNaN rt (price p)"
    and "computed_total rt d items = Some tot" and "\<not> isNaN rt tot"
  shows "\<exists>ops. resolve_items rt d items 0 [] = Inr (tot, ops) \<and>
           list_all2 (snapshot_of d) items ops \<and> tot = line_sum 0 ops \<and>
           validate rt (new_Order e (req_customer b) ops tot (req_notes b)) = []"
proof -
  from assms(4) obtain ops where r: "resolve_items rt d items 0 [] = Inr (tot, ops)"
    by (auto simp: computed_total_def split: sum.splits)
  from resolve_items_Inr[OF r] have
    s: "list_all2 (snapshot_of d) items ops" "tot = line_sum 0 ops" and
    v: "list_all (\<lambda>li. isObjectId rt (product li) \<and> \<not> isNaN rt (li_quantity li)) ops" and
    p: "\<forall>li\<in>set ops. \<exists>p\<in>set (Product d). li_price li = price p"
    by auto
  from p assms(3) have "\<forall>li\<in>set ops. \<not> isNaN rt (li_price li)" by auto
  with v have "list_all (\<lambda>li. isObjectId rt (product li) \<and> \<not> isNaN rt (li_quantity li) \<and>
                     \<not> isNaN rt (li_price li)) ops"
    by (simp add: list_all_iff)
  with assms(1,2,5) have "validate rt (new_Order e (req_customer b) ops tot (req_notes b)) = []"
    by (simp add: validate_new_Order)
  with r s show ?thesis by blast
qed

text \<open>The active flags do not enter the creation.\<close>

lemma find_map_flags:
  "find (\<lambda>p. p_id p = i) (map (\<lambda>p. p\<lparr>isActive := g p\<rparr>) coll) =
     map_option (\<lambda>p. p\<lparr>isActive := g p\<rparr>) (find (\<lambda>p. p_id p = i) coll)"
  by (induction coll) auto

lemma Product_findById_with_flags:
  "Product_findById rt (with_flags g d) i =
     map_sum id (map_option (\<lambda>p. p\<lparr>isActive := g p\<rparr>)) (Product_findById rt d i)"
  by (simp add: Product_findById_def findById_def with_flags_def find_map_flags)

lemma resolve_items_with_flags:
  "resolve_items rt (with_flags g d) items tot acc = resolve_items rt d items tot acc"
proof (induction items arbitrary: tot acc)
  case Nil
  show ?case by simp
next
  case (Cons x rest)
  show ?case
  proof (cases x)
    case None
    then show ?thesis by simp
  next
    case (Some it)
    show ?thesis
    proof (cases "productId it")
      case None
      with Some show ?thesis by simp
    next
      case i: (Some i)
      show ?thesis
      proof (cases "quantity it")
        case None
        with Some show ?thesis by simp
      next
        case q: (Some q)
        show ?thesis
        proof (cases "Product_findById rt d i")
          case (Inl err)
          with Some i q show ?thesis by (simp add: Product_findById_with_flags)
        next
          case (Inr r)
          with Some i q Cons.IH show ?thesis
            by (cases r) (simp_all add: Product_findById_with_flags)
        qed
      qed
    qed
  qed
qed

lemma save_with_flags:
  "save rt e (with_flags g d) x =
     map_sum id (\<lambda>(ord, d'). (ord, with_flags g d')) (save rt e d x)"
  by (simp add: save_def pre_save_def with_flags_def Let_def)

lemma post_orders_with_flags:
  "fst (post_orders rt e (with_flags g d) b) = fst (post_orders rt e d b)"
proof (cases "\<not> truthy_string (req_customer b) \<or> \<not> isArray (req_products b) \<or>
              elements (req_products b) = []")
  case True
  then show ?thesis by (simp add: post_orders_rejected)
next
  case False
  then obtain items where items: "req_products b = Array items" "items \<noteq> []"
    by (cases "req_products b") auto
  from False have c: "truthy_string (req_customer b)" by simp
  show ?thesis
    unfolding post_orders_Array[OF c items] resolve_items_with_flags save_with_flags
    by (auto split: sum.splits prod.splits)
qed

text \<open>The example data.\<close>

lemma rt0_simps: "isObjectId rt0 = hex24" "isNaN rt0 q = False"
  by (simp_all add: rt0_def)

lemma ids_hex24:
  "hex24 pid1" "hex24 pid2" "hex24 pid9" "hex24 cid1" "hex24 oid1" "hex24 oid9"
  "\<not> hex24 ''p9''" "\<not> hex24 ''o9''" "\<not> hex24 ''c1''"
  by (simp_all add: hex24_def pid1_def pid2_def pid9_def cid1_def oid1_def oid9_def)

lemma ids_distinct:
  "pid1 \<noteq> pid2" "pid2 \<noteq> pid1" "pid1 \<noteq> pid9" "pid2 \<noteq> pid9" "pid9 \<noteq> pid1" "pid9 \<noteq> pid2"
  "oid1 \<noteq> oid9" "oid9 \<noteq> oid1" "pid1 \<noteq> ''p9''" "pid2 \<noteq> ''p9''" "oid1 \<noteq> ''o9''"
  by (simp_all add: pid1_def pid2_def pid9_def oid1_def oid9_def)

lemma ids_nonempty: "pid1 \<noteq> []" "pid2 \<noteq> []" "pid9 \<noteq> []" "cid1 \<noteq> []" "oid1 \<noteq> []"
  by (simp_all add: pid1_def pid2_def pid9_def cid1_def oid1_def)

lemma product_examples:
  "p_id mug = pid1" "price mug = 10" "p_id bag = pid2" "price bag = 5" "isActive bag = False"
  by (simp_all add: mug_def bag_def)

lemma lookup_examples:
  "findById p_id [mug, bag] pid1 = Some mug"
  "findById p_id [mug, bag] pid2 = Some bag"
  "findById p_id [mug, bag] pid9 = None"
  "findById p_id [mug, bag] ''p9'' = None"
  by (simp_all add: findById_def product_examples ids_distinct)

lemma resolve_items0:
  "Product d = [mug, bag] \<Longrightarrow> resolve_items rt0 d items0 0 [] = Inr (35, lines0)"
  by (simp add: items0_def lines0_def Product_findById_def lookup_examples rt0_simps ids_hex24
      ids_nonempty product_examples)

lemma toString_examples:
  "toString 1700000000001 = ''1700000000001''"
  "toString 1700000000002 = ''1700000000002''"
  "toString (Suc 0) = ''1''" "toString (Suc (Suc 0)) = ''2''" "toString 10000 = ''10000''"
  by (simp_all add: toString.simps digit_def)

lemma generate_examples:
  "generate_orderNumber 1700000000001 0 = ''ORD-1700000000001-0001''"
  "generate_orderNumber 1700000000001 (Suc 0) = ''ORD-1700000000001-0002''"
  "generate_orderNumber 1700000000002 (Suc 0) = ''ORD-1700000000002-0002''"
  by (simp_all add: generate_orderNumber_def toString_examples padStart_def numeral_3_eq_3)

lemma body0_shape:
  "truthy_string (req_customer body0)" "req_products body0 = Array items0" "items0 \<noteq> []"
  by (simp_all add: body0_def items0_def ids_nonempty)

lemma validate_body0:
  "validate rt0 (new_Order e (req_customer body0) lines0 35 (req_notes body0)) = []"
  by (simp add: body0_def validate_new_Order rt0_simps ids_hex24 lines0_def)

lemma post_body0:
  "post_orders rt0 env0 db0 body0 = ((201, Doc ord0), db0\<lparr>Order := [ord0]\<rparr>)"
proof -
  have r: "resolve_items rt0 db0 items0 0 [] = Inr (35, lines0)"
    by (rule resolve_items0) (simp add: db0_def)
  have g: "generate_orderNumber (date_save env0) (length (Order db0)) = ''ORD-1700000000001-0001''"
    by (simp add: env0_def db0_def generate_examples)
  have n: "(new_Order env0 (req_customer body0) lines0 35 (req_notes body0))
            \<lparr>orderNumber := Some ''ORD-1700000000001-0001''\<rparr> = ord0"
    by (simp add: new_Order_def ord0_def body0_def env0_def)
  have o: "Order db0 = []" by (simp add: db0_def)
  have s: "save rt0 env0 db0 (new_Order env0 (req_customer body0) lines0 35 (req_notes body0)) =
             Inr (ord0, db0\<lparr>Order := [ord0]\<rparr>)"
    unfolding save_new_Order[OF validate_body0] g n by (simp add: o)
  show ?thesis
    unfolding post_orders_Array[OF body0_shape] r by (simp add: s)
qed

lemma resolvable_items0:
  "Product d = [mug, bag] \<Longrightarrow> resolvable rt0 d (items0 ! 0)"
  "Product d = [mug, bag] \<Longrightarrow> resolvable rt0 d (items0 ! 1)"
  by (simp_all add: resolvable_def items0_def lookup_examples rt0_simps ids_hex24 ids_nonempty)

lemma put_delivered:
  "put_order_status rt0 db_delivered oid1 (Some ''placed'') =
     ((200, Doc ord0), db_delivered\<lparr>Order := [ord0]\<rparr>)"
proof -
  have v: "''placed'' \<in> set validStatuses" by (simp add: validStatuses_def)
  show ?thesis
    unfolding put_order_status_valid[OF v]
    by (simp add: findById_def db_delivered_def ord0_def rt0_simps ids_hex24)
qed

subsection \<open>Totals and price snapshots of a created order\<close>

text \<open>
  C1. Whenever \<open>POST /api/orders\<close> answers 201, exactly the returned order has been
  appended to the stored orders; its status is \<open>placed\<close>; its \<open>totalAmount\<close> is the sum of
  price times quantity over its own line items; and each line item is the snapshot of the
  requested item at the same position: the requested product and quantity, with the price
  that the product has in the database when it is looked up.
\<close>

theorem created_order_total_and_snapshots:
  assumes "post_orders rt e d b = ((201, Doc ord), d')"
  shows "d' = d\<lparr>Order := Order d @ [ord]\<rparr> \<and>
         status ord = ''placed'' \<and>
         totalAmount ord = line_sum 0 (products ord) \<and>
         list_all2 (snapshot_of d) (elements (req_products b)) (products ord)"
proof -
  from post_orders_201[OF assms] obtain tot ops where
    res: "resolve_items rt d (elements (req_products b)) 0 [] = Inr (tot, ops)" and
    sv: "save rt e d (new_Order e (req_customer b) ops tot (req_notes b)) = Inr (ord, d')"
    by blast
  from resolve_items_Inr[OF res] have
    ops: "list_all2 (snapshot_of d) (elements (req_products b)) ops" "tot = line_sum 0 ops"
    by auto
  from save_Inr[OF sv] have
    ord: "ord = pre_save e d (new_Order e (req_customer b) ops tot (req_notes b))" and
    d': "d' = d\<lparr>Order := Order d @ [ord]\<rparr>" by auto
  from ord have "status ord = ''placed''" "products ord = ops" "totalAmount ord = tot"
    by (simp_all add: pre_save_new_Order) (simp_all add: new_Order_def)
  with ops d' show ?thesis by simp
qed

theorem created_order_total_and_snapshots_witness:
  "post_orders rt0 env0 db0 body0 = ((201, Doc ord0), db0\<lparr>Order := [ord0]\<rparr>) \<and>
   status ord0 = ''placed'' \<and> totalAmount ord0 = 10 * 2 + 5 * 3 \<and>
   totalAmount ord0 = line_sum 0 (products ord0) \<and>
   list_all2 (snapshot_of db0) (elements (req_products body0)) (products ord0)"
proof -
  have t: "totalAmount ord0 = 10 * 2 + 5 * 3" by (simp add: ord0_def)
  from created_order_total_and_snapshots[OF post_body0] post_body0 t show ?thesis by simp
qed

subsection \<open>Unknown products abort the creation\<close>




subsection \<open>No transition rule on status updates\<close>

text \<open>
  C3. For every stored order and every target status among the four recognised values, the
  status update answers 200 with the order carrying the target status, and that is the
  order then stored under the identifier. The current status of the order is not consulted:
  nothing is assumed about it, so an order that is delivered or cancelled can be moved to
  any status. The identifier of a stored order is an ObjectId.
\<close>

theorem status_update_ignores_current_status:
  assumes "isObjectId rt i" and "findById o_id (Order d) i = Some ord"
    and "st \<in> set validStatuses"
  shows "fst (put_order_status rt d i (Some st)) = (200, Doc (ord\<lparr>status := st\<rparr>)) \<and>
         findById o_id (Order (snd (put_order_status rt d i (Some st)))) i =
           Some (ord\<lparr>status := st\<rparr>)"
  using assms by (simp add: put_order_status_valid findById_update_first)

theorem status_update_ignores_current_status_witness:
  "isObjectId rt0 oid1 \<and>
   findById o_id (Order db_delivered) oid1 = Some (ord0\<lparr>status := ''delivered''\<rparr>) \<and>
   ''placed'' \<in> set validStatuses \<and>
   fst (put_order_status rt0 db_delivered oid1 (Some ''placed'')) = (200, Doc ord0) \<and>
   findById o_id (Order (snd (put_order_status rt0 db_delivered oid1 (Some ''placed'')))) oid1 =
     Some ord0"
proof -
  have h0: "isObjectId rt0 oid1" by (simp add: rt0_simps ids_hex24)
  have h1: "findById o_id (Order db_delivered) oid1 = Some (ord0\<lparr>status := ''delivered''\<rparr>)"
    by (simp add: findById_def db_delivered_def ord0_def)
  have h2: "''placed'' \<in> set validStatuses" by (simp add: validStatuses_def)
  have e: "ord0\<lparr>status := ''delivered'', status := ''placed''\<rparr> = ord0" by (simp add: ord0_def)
  from status_update_ignores_current_status[OF h0 h1 h2] h0 h1 h2 e show ?thesis by simp
qed

subsection \<open>Duplicate order numbers\<close>

text \<open>
  C4, as the code has it. When the insertion of a new order violates the uniqueness of the
  order number, the handler does not generate a second number: it answers 500 with the
  message of the duplicate-key error, and the database is left as it was. The insertion
  is reached by a request with a customer that casts to an ObjectId and a non-empty array
  of items that all pass the loop body, when no price or total is NaN.
\<close>

theorem duplicate_order_number_fails_without_retry:
  assumes "req_customer b = Some c" and "c \<noteq> []" and "isObjectId rt c"
    and "req_products b = Array items" and "items \<noteq> []"
    and "\<forall>p\<in>set (Product d). \<not> isNaN rt (price p)"
    and "computed_total rt d items = Some tot" and "\<not> isNaN rt tot"
    and "Some (generate_orderNumber (date_save e) (length (Order d)))
           \<in> set (map orderNumber (Order d))"
  shows "post_orders rt e d b =
           ((500, ErrMessage (DuplicateKey (generate_orderNumber (date_save e) (length (Order d))))),
            d)"
proof -
  from request_validates[OF assms(1,3,6,7,8), of e] obtain ops where
    r: "resolve_items rt d items 0 [] = Inr (tot, ops)" and
    v: "validate rt (new_Order e (req_customer b) ops tot (req_notes b)) = []" by blast
  have c: "truthy_string (req_customer b)" using assms(1,2) by simp
  show ?thesis
    unfolding post_orders_Array[OF c assms(4,5)] r using assms(9)
    by (simp add: save_new_Order[OF v])
qed

theorem duplicate_order_number_fails_without_retry_witness:
  "req_customer body0 = Some cid1 \<and> cid1 \<noteq> [] \<and> isObjectId rt0 cid1 \<and>
   req_products body0 = Array items0 \<and> items0 \<noteq> [] \<and>
   \<not> isNaN rt0 (price mug) \<and> \<not> isNaN rt0 (price bag) \<and>
   computed_total rt0 db_dup items0 = Some 35 \<and> \<not> isNaN rt0 35 \<and>
   generate_orderNumber (date_save env0) (length (Order db_dup)) = ''ORD-1700000000001-0002'' \<and>
   map orderNumber (Order db_dup) = [Some ''ORD-1700000000001-0002''] \<and>
   post_orders rt0 env0 db_dup body0 =
     ((500, ErrMessage (DuplicateKey ''ORD-1700000000001-0002'')), db_dup)"
proof -
  have c: "req_customer body0 = Some cid1" "cid1 \<noteq> []" "isObjectId rt0 cid1"
    by (simp_all add: body0_def ids_nonempty rt0_simps ids_hex24)
  have p: "\<forall>p\<in>set (Product db_dup). \<not> isNaN rt0 (price p)" by (simp add: rt0_simps)
  have t: "computed_total rt0 db_dup items0 = Some 35"
    by (simp add: computed_total_def resolve_items0 db_dup_def)
  have n: "\<not> isNaN rt0 35" by (simp add: rt0_simps)
  have g: "generate_orderNumber (date_save env0) (length (Order db_dup)) =
             ''ORD-1700000000001-0002''"
    by (simp add: env0_def db_dup_def generate_examples)
  have o: "map orderNumber (Order db_dup) = [Some ''ORD-1700000000001-0002'']"
    by (simp add: db_dup_def)
  have h: "Some (generate_orderNumber (date_save env0) (length (Order db_dup)))
             \<in> set (map orderNumber (Order db_dup))"
    by (simp add: g o)
  from duplicate_order_number_fails_without_retry[OF c body0_shape(2,3) p t n h]
    c body0_shape(2,3) t g o
  show ?thesis by (simp add: rt0_simps)
qed

theorem duplicate_order_number_no_retry_example:
  "post_orders rt0 env0 db_dup body0 =
     ((500, ErrMessage (DuplicateKey ''ORD-1700000000001-0002'')), db_dup) \<and>
   fst (fst (post_orders rt0 (env0\<lparr>date_save := 1700000000002\<rparr>) db_dup body0)) = 201"
proof -
  have r: "resolve_items rt0 db_dup items0 0 [] = Inr (35, lines0)"
    by (rule resolve_items0) (simp add: db_dup_def)
  have g1: "generate_orderNumber (date_save env0) (length (Order db_dup)) =
              ''ORD-1700000000001-0002''"
    by (simp add: env0_def db_dup_def generate_examples)
  have g2: "generate_orderNumber 1700000000002 (length (Order db_dup)) =
              ''ORD-1700000000002-0002''"
    by (simp add: db_dup_def generate_examples)
  have o: "map orderNumber (Order db_dup) = [Some ''ORD-1700000000001-0002'']"
    by (simp add: db_dup_def)
  have a: "post_orders rt0 env0 db_dup body0 =
     ((500, ErrMessage (DuplicateKey ''ORD-1700000000001-0002'')), db_dup)"
    unfolding post_orders_Array[OF body0_shape] r
    by (simp add: save_new_Order[OF validate_body0] g1 o)
  have b: "fst (fst (post_orders rt0 (env0\<lparr>date_save := 1700000000002\<rparr>) db_dup body0)) = 201"
    unfolding post_orders_Array[OF body0_shape] r
    by (simp add: save_new_Order[OF validate_body0] g2 o)
  from a b show ?thesis by simp
qed

subsection \<open>Format of the generated order number\<close>

text \<open>
  C5, as the code has it. An order saved without an order number gets \<open>ORD-\<close>, the epoch
  milliseconds, a hyphen and the decimal digits of the count of stored orders plus one,
  preceded by zeros only. The suffix has exactly 4 characters precisely when the count
  plus one is below 10000; from there on it is the unpadded number, which is longer.
\<close>

theorem generated_order_number_format:
  assumes "\<not> truthy_string (orderNumber ord)"
  shows "orderNumber (pre_save e d ord) =
           Some (''ORD-'' @ toString (date_save e) @ ''-'' @
                 padStart (toString (length (Order d) + 1)) 4 CHR ''0'') \<and>
         (length (padStart (toString (length (Order d) + 1)) 4 CHR ''0'') = 4
            \<longleftrightarrow> length (Order d) + 1 < 10000) \<and>
         (\<exists>zs. padStart (toString (length (Order d) + 1)) 4 CHR ''0'' =
                 zs @ toString (length (Order d) + 1) \<and> set zs \<subseteq> {CHR ''0''}) \<and>
         (10000 \<le> length (Order d) + 1 \<longrightarrow>
            padStart (toString (length (Order d) + 1)) 4 CHR ''0'' = toString (length (Order d) + 1))"
proof -
  let ?n = "length (Order d) + 1"
  have le: "length (toString ?n) \<le> 4 \<longleftrightarrow> ?n < 10000"
    using length_toString_le[of 4 ?n] by simp
  have a: "orderNumber (pre_save e d ord) =
           Some (''ORD-'' @ toString (date_save e) @ ''-'' @ padStart (toString ?n) 4 CHR ''0'')"
    using assms by (simp add: pre_save_def generate_orderNumber_def)
  have b: "length (padStart (toString ?n) 4 CHR ''0'') = 4 \<longleftrightarrow> ?n < 10000"
    using le by (auto simp: padStart_length max_def)
  have c: "\<exists>zs. padStart (toString ?n) 4 CHR ''0'' = zs @ toString ?n \<and> set zs \<subseteq> {CHR ''0''}"
    by (auto simp: padStart_def)
  have d: "10000 \<le> ?n \<longrightarrow> padStart (toString ?n) 4 CHR ''0'' = toString ?n"
    using le by (auto simp: padStart_def)
  from a b c d show ?thesis by blast
qed

theorem generated_order_number_format_witness:
  "\<not> truthy_string (orderNumber (new_Order env0 (Some cid1) [] (0::int) None)) \<and>
   orderNumber (pre_save env0 db0 (new_Order env0 (Some cid1) [] (0::int) None)) =
     Some ''ORD-1700000000001-0001''"
proof -
  have h: "\<not> truthy_string (orderNumber (new_Order env0 (Some cid1) [] (0::int) None))"
    by (simp add: new_Order_def)
  have t1: "toString 1700000000001 = ''1700000000001''"
    by (simp add: toString.simps digit_def)
  have "toString 1 = ''1''"
    by (simp add: toString.simps digit_def)
  then have t2: "padStart (toString 1) 4 CHR ''0'' = ''0001''"
    by (simp add: padStart_def numeral_3_eq_3)
  from generated_order_number_format[OF h, of env0 db0] h t1 t2 show ?thesis
    by (simp add: env0_def db0_def)
qed

theorem order_number_suffix_five_digits:
  "orderNumber (pre_save env0 db_full (new_Order env0 (Some cid1) [] 0 None)) =
     Some ''ORD-1700000000001-10000'' \<and>
   length (padStart (toString (length (Order db_full) + 1)) 4 CHR ''0'') = 5"
proof -
  have t1: "toString 1700000000001 = ''1700000000001''"
    by (simp add: toString.simps digit_def)
  have t2: "toString 10000 = ''10000''"
    by (simp add: toString.simps digit_def)
  show ?thesis
    by (simp add: pre_save_def new_Order_def generate_orderNumber_def db_full_def env0_def
        padStart_def t1 t2)
qed

subsection \<open>Missing customer or products\<close>

text \<open>
  C6, as the code has it. When the customer is missing or empty, or the products are
  missing, not an array or an empty array, the creation fails with status 400 and the one
  message \<open>Customer and products are required\<close>, and the database is left as it was.
\<close>

theorem missing_customer_or_products_rejected:
  assumes "\<not> truthy_string (req_customer b) \<or> req_products b = Missing \<or>
           req_products b = NotArray \<or> req_products b = Array []"
  shows "post_orders rt e d b = ((400, Err ''Customer and products are required''), d)"
  using assms by (auto simp: post_orders_def)

theorem missing_customer_or_products_rejected_witness:
  "req_customer (body0\<lparr>req_customer := Some []\<rparr>) = Some [] \<and>
   post_orders rt0 env0 db0 (body0\<lparr>req_customer := Some []\<rparr>) =
     ((400, Err ''Customer and products are required''), db0) \<and>
   req_products (body0\<lparr>req_products := NotArray\<rparr>) = NotArray \<and>
   post_orders rt0 env0 db0 (body0\<lparr>req_products := NotArray\<rparr>) =
     ((400, Err ''Customer and products are required''), db0)"
proof -
  have h1: "\<not> truthy_string (req_customer (body0\<lparr>req_customer := Some []\<rparr>)) \<or>
    req_products (body0\<lparr>req_customer := Some []\<rparr>) = Missing \<or>
    req_products (body0\<lparr>req_customer := Some []\<rparr>) = NotArray \<or>
    req_products (body0\<lparr>req_customer := Some []\<rparr>) = Array []" by simp
  have h2: "\<not> truthy_string (req_customer (body0\<lparr>req_products := NotArray\<rparr>)) \<or>
    req_products (body0\<lparr>req_products := NotArray\<rparr>) = Missing \<or>
    req_products (body0\<lparr>req_products := NotArray\<rparr>) = NotArray \<or>
    req_products (body0\<lparr>req_products := NotArray\<rparr>) = Array []" by simp
  from missing_customer_or_products_rejected[OF h1, of rt0 env0 db0]
    missing_customer_or_products_rejected[OF h2, of rt0 env0 db0]
  show ?thesis by simp
qed

theorem validation_messages_coincide:
  "post_orders rt0 env0 db0 (body0\<lparr>req_customer := None\<rparr>) =
     ((400, Err ''Customer and products are required''), db0) \<and>
   post_orders rt0 env0 db0 (body0\<lparr>req_products := Array []\<rparr>) =
     ((400, Err ''Customer and products are required''), db0) \<and>
   post_orders rt0 env0 db0 (body0\<lparr>req_products := Missing\<rparr>) =
     ((400, Err ''Customer and products are required''), db0)"
  by (simp add: post_orders_def body0_def)

subsection \<open>Items without identifier or quantity\<close>

text \<open>
  C7, as the code has it. A creation request with a line item whose product identifier is
  missing or empty, or whose quantity is missing, zero or NaN, fails with status 400 or 500
  and leaves the database as it was. When the request reaches that item (the customer is
  given and every earlier item passes the loop body), the answer is 400 with
  \<open>Each product must have productId and quantity\<close>. Conversely, a request whose items all
  have a non-empty identifier and a quantity other than zero and NaN, of either sign, is
  never answered with that error.
\<close>

theorem falsy_item_rejected:
  "(req_products b = Array (pre @ Some it # post) \<and>
    (\<not> truthy_string (productId it) \<or> \<not> truthy_number rt (quantity it)) \<longrightarrow>
      ((fst (fst (post_orders rt e d b)) = 400 \<or> fst (fst (post_orders rt e d b)) = 500) \<and>
       snd (post_orders rt e d b) = d) \<and>
      (truthy_string (req_customer b) \<and> (\<forall>y\<in>set pre. resolvable rt d y) \<longrightarrow>
         post_orders rt e d b =
           ((400, Err ''Each product must have productId and quantity''), d))) \<and>
   (req_products b = Array items \<and>
    (\<forall>y\<in>set items. \<exists>it i q. y = Some it \<and> productId it = Some i \<and> i \<noteq> [] \<and>
        quantity it = Some q \<and> q \<noteq> 0 \<and> q \<noteq> - 0 \<and> \<not> isNaN rt q) \<longrightarrow>
      fst (post_orders rt e d b) \<noteq> (400, Err ''Each product must have productId and quantity''))"
proof (intro conjI impI)
  assume a: "req_products b = Array (pre @ Some it # post) \<and>
    (\<not> truthy_string (productId it) \<or> \<not> truthy_number rt (quantity it))"
  then have "\<not> resolvable rt d (Some it)" by (auto simp: resolvable_def)
  with a have u: "\<exists>x\<in>set (elements (req_products b)). \<not> resolvable rt d x" by auto
  from post_orders_unresolved[OF u]
  show "fst (fst (post_orders rt e d b)) = 400 \<or> fst (fst (post_orders rt e d b)) = 500"
    and "snd (post_orders rt e d b) = d" by auto
next
  assume a: "req_products b = Array (pre @ Some it # post) \<and>
    (\<not> truthy_string (productId it) \<or> \<not> truthy_number rt (quantity it))"
    and c: "truthy_string (req_customer b) \<and> (\<forall>y\<in>set pre. resolvable rt d y)"
  from a have sh: "req_products b = Array (pre @ Some it # post)" by simp
  from c have c1: "truthy_string (req_customer b)" and pre: "\<forall>y\<in>set pre. resolvable rt d y"
    by auto
  from post_orders_at[OF c1 sh pre, of e] obtain tot acc where
    "post_orders rt e d b =
     (case resolve_items rt d (Some it # post) tot acc of
        Inl r \<Rightarrow> (r, d)
      | Inr (tot, ops) \<Rightarrow>
          (case save rt e d (new_Order e (req_customer b) ops tot (req_notes b)) of
             Inl err \<Rightarrow> ((500, ErrMessage err), d)
           | Inr (ord, d') \<Rightarrow> ((201, Doc ord), d')))" by blast
  moreover have "resolve_items rt d (Some it # post) tot acc =
      Inl (400, Err ''Each product must have productId and quantity'')"
    using a by auto
  ultimately show "post_orders rt e d b =
      ((400, Err ''Each product must have productId and quantity''), d)" by simp
next
  assume a: "req_products b = Array items \<and>
    (\<forall>y\<in>set items. \<exists>it i q. y = Some it \<and> productId it = Some i \<and> i \<noteq> [] \<and>
        quantity it = Some q \<and> q \<noteq> 0 \<and> q \<noteq> - 0 \<and> \<not> isNaN rt q)"
  then have wf: "\<forall>y\<in>set items. well_formed rt y"
    by (fastforce simp: well_formed_def)
  show "fst (post_orders rt e d b) \<noteq> (400, Err ''Each product must have productId and quantity'')"
  proof (cases "\<not> truthy_string (req_customer b) \<or> \<not> isArray (req_products b) \<or>
                elements (req_products b) = []")
    case True
    from post_orders_rejected[OF this] show ?thesis by simp
  next
    case False
    with a have c: "truthy_string (req_customer b)" and ne: "items \<noteq> []" by auto
    from a have sh: "req_products b = Array items" by simp
    show ?thesis
    proof (cases "resolve_items rt d items 0 []")
      case (Inl r)
      with resolve_items_well_formed[OF wf, of d 0 "[]"] show ?thesis
        by (auto simp: post_orders_Array[OF c sh ne])
    next
      case (Inr r)
      then show ?thesis
        by (auto simp: post_orders_Array[OF c sh ne] split: prod.splits sum.splits)
    qed
  qed
qed

theorem falsy_item_rejected_witness:
  "req_products (body0\<lparr>req_products := Array items_zero\<rparr>) =
     Array ([items_zero ! 0] @ Some \<lparr>productId = Some pid2, quantity = Some 0\<rparr> # []) \<and>
   \<not> truthy_number rt0 (Some 0) \<and>
   truthy_string (req_customer (body0\<lparr>req_products := Array items_zero\<rparr>)) \<and>
   resolvable rt0 db0 (items_zero ! 0) \<and>
   post_orders rt0 env0 db0 (body0\<lparr>req_products := Array items_zero\<rparr>) =
     ((400, Err ''Each product must have productId and quantity''), db0) \<and>
   req_products (body0\<lparr>req_products := Array items_negative\<rparr>) =
     Array [Some \<lparr>productId = Some pid1, quantity = Some (- 1)\<rparr>] \<and>
   fst (post_orders rt0 env0 db0 (body0\<lparr>req_products := Array items_negative\<rparr>)) \<noteq>
     (400, Err ''Each product must have productId and quantity'')"
proof -
  let ?bz = "body0\<lparr>req_products := Array items_zero\<rparr>"
  let ?bn = "body0\<lparr>req_products := Array items_negative\<rparr>"
  let ?it = "\<lparr>productId = Some pid2, quantity = Some (0::int)\<rparr>"
  have h1: "req_products ?bz = Array ([items_zero ! 0] @ Some ?it # [])"
    by (simp add: items_zero_def)
  have h2: "\<not> truthy_number rt0 (Some 0)" by simp
  then have h2': "\<not> truthy_string (productId ?it) \<or> \<not> truthy_number rt0 (quantity ?it)"
    by simp
  have c: "truthy_string (req_customer ?bz)" by (simp add: body0_def ids_nonempty)
  have r: "resolvable rt0 db0 (items_zero ! 0)"
    by (simp add: resolvable_def items_zero_def db0_def lookup_examples rt0_simps
        ids_hex24 ids_nonempty)
  have n1: "req_products ?bn = Array [Some \<lparr>productId = Some pid1, quantity = Some (- 1)\<rparr>]"
    by (simp add: items_negative_def)
  have n2: "\<forall>y\<in>set [Some \<lparr>productId = Some pid1, quantity = Some (- 1::int)\<rparr>].
       \<exists>it i q. y = Some it \<and> productId it = Some i \<and> i \<noteq> [] \<and>
        quantity it = Some q \<and> q \<noteq> 0 \<and> q \<noteq> - 0 \<and> \<not> isNaN rt0 q"
    by (simp add: rt0_simps ids_nonempty)
  from falsy_item_rejected[of ?bz "[items_zero ! 0]" ?it "[]" rt0 env0 db0 "[]"]
    falsy_item_rejected[of ?bn "[]" ?it "[]" rt0 env0 db0
      "[Some \<lparr>productId = Some pid1, quantity = Some (- 1)\<rparr>]"]
    h1 h2 h2' c r n1 n2
  show ?thesis by (simp add: ids_nonempty rt0_simps)
qed

theorem negative_quantity_accepted:
  "quantity (the (items_negative ! 0)) = Some (- 1) \<and>
   post_orders rt0 env0 db0 (body0\<lparr>req_products := Array items_negative\<rparr>) =
     ((201, Doc ord_negative), db0\<lparr>Order := [ord_negative]\<rparr>)"
proof -
  let ?b = "body0\<lparr>req_products := Array items_negative\<rparr>"
  let ?ops = "[\<lparr>product = pid1, li_quantity = - 1, li_price = (10::int)\<rparr>]"
  have sh: "truthy_string (req_customer ?b)" "req_products ?b = Array items_negative"
    "items_negative \<noteq> []"
    by (simp_all add: body0_def items_negative_def ids_nonempty)
  have r: "resolve_items rt0 db0 items_negative 0 [] = Inr (- 10, ?ops)"
    by (simp add: items_negative_def db0_def Product_findById_def lookup_examples rt0_simps
        ids_hex24 ids_nonempty product_examples)
  have v: "validate rt0 (new_Order env0 (req_customer body0) ?ops (- 10) (req_notes body0)) = []"
    by (simp add: body0_def validate_new_Order rt0_simps ids_hex24)
  have g: "generate_orderNumber (date_save env0) (length (Order db0)) = ''ORD-1700000000001-0001''"
    by (simp add: env0_def db0_def generate_examples)
  have o: "Order db0 = []" by (simp add: db0_def)
  have s: "save rt0 env0 db0 (new_Order env0 (req_customer body0) ?ops (- 10) (req_notes body0)) =
             Inr (ord_negative, db0\<lparr>Order := [ord_negative]\<rparr>)"
    unfolding save_new_Order[OF v] g
    by (simp add: o new_Order_def ord_negative_def body0_def env0_def)
  have "post_orders rt0 env0 db0 ?b = ((201, Doc ord_negative), db0\<lparr>Order := [ord_negative]\<rparr>)"
    unfolding post_orders_Array[OF sh] r by (simp add: s)
  then show ?thesis by (simp add: items_negative_def)
qed

subsection \<open>Validation of a status update before the lookup\<close>




subsection \<open>Frame of a status update\<close>

text \<open>
  C9. A status update that answers 200 has replaced the order stored under the identifier
  by the returned one, which has the same identifier, order number, customer, line items,
  total amount, order date and notes as before. With the status fields blanked, the stored
  orders before and after are the same list; the orders under other identifiers and the
  products are untouched. A later update of any product leaves the stored orders as they
  are.
\<close>

theorem status_update_frame:
  assumes "put_order_status rt d i st = ((200, Doc ord'), d')"
  shows "\<exists>ord. findById o_id (Order d) i = Some ord \<and>
           findById o_id (Order d') i = Some ord' \<and>
           o_id ord' = o_id ord \<and> orderNumber ord' = orderNumber ord \<and>
           customer ord' = customer ord \<and> products ord' = products ord \<and>
           totalAmount ord' = totalAmount ord \<and> orderDate ord' = orderDate ord \<and>
           order_notes ord' = order_notes ord \<and>
           map (\<lambda>x. x\<lparr>status := []\<rparr>) (Order d') = map (\<lambda>x. x\<lparr>status := []\<rparr>) (Order d) \<and>
           (\<forall>j. j \<noteq> i \<longrightarrow> findById o_id (Order d') j = findById o_id (Order d) j) \<and>
           Product d' = Product d \<and>
           (\<forall>pid upd. Order (put_product rt d' pid upd) = Order d')"
proof -
  from put_order_status_200[OF assms] obtain s ord where
    s: "st = Some s" "s \<in> set validStatuses" and
    ord: "findById o_id (Order d) i = Some ord" and
    ord': "ord' = ord\<lparr>status := s\<rparr>" and
    d': "d' = d\<lparr>Order := update_first o_id i (\<lambda>x. x\<lparr>status := s\<rparr>) (Order d)\<rparr>"
    by blast
  have stored: "findById o_id (Order d') i = Some ord'"
    using ord ord' d' by (simp add: findById_update_first)
  have others: "\<forall>j. j \<noteq> i \<longrightarrow> findById o_id (Order d') j = findById o_id (Order d) j"
    using d' by (simp add: findById_update_first)
  have frame: "map (\<lambda>x. x\<lparr>status := []\<rparr>) (Order d') = map (\<lambda>x. x\<lparr>status := []\<rparr>) (Order d)"
    using d' by (simp add: update_first_frame)
  have prod: "\<forall>pid upd. Order (put_product rt d' pid upd) = Order d'"
    by (simp add: put_product_def Product_findByIdAndUpdate_def split: option.splits)
  from ord stored others frame prod ord' d' show ?thesis by simp
qed

theorem status_update_frame_witness:
  "put_order_status rt0 db_delivered oid1 (Some ''placed'') =
     ((200, Doc ord0), db_delivered\<lparr>Order := [ord0]\<rparr>) \<and>
   findById o_id (Order db_delivered) oid1 = Some (ord0\<lparr>status := ''delivered''\<rparr>) \<and>
   findById o_id (Order (db_delivered\<lparr>Order := [ord0]\<rparr>)) oid1 = Some ord0 \<and>
   totalAmount ord0 = 35 \<and> products ord0 = lines0 \<and>
   Order (put_product rt0 (db_delivered\<lparr>Order := [ord0]\<rparr>) pid1 (\<lambda>p. p\<lparr>price := 99\<rparr>)) = [ord0]"
proof -
  have f: "findById o_id (Order db_delivered) oid1 = Some (ord0\<lparr>status := ''delivered''\<rparr>)"
    by (simp add: findById_def db_delivered_def ord0_def)
  have t: "totalAmount ord0 = 35 \<and> products ord0 = lines0" by (simp add: ord0_def)
  from status_update_frame[OF put_delivered] put_delivered f t show ?thesis by auto
qed

subsection \<open>The active flag of products\<close>

text \<open>
  C10, as the code has it. The answer to a creation request is the same whatever the
  active flags of the stored products are. A request with a customer that casts to an
  ObjectId and a non-empty array of items that all pass the loop body, when no stored
  price and not the total is NaN and the generated order number is not taken, answers 201
  and stores the order, with a snapshot line item for every requested item and the total
  over them, whether the products are active or not.
\<close>

theorem creation_ignores_active_flag:
  "(\<forall>g. fst (post_orders rt e (with_flags g d) b) = fst (post_orders rt e d b)) \<and>
   (req_customer b = Some c \<and> c \<noteq> [] \<and> isObjectId rt c \<and>
    req_products b = Array items \<and> items \<noteq> [] \<and> (\<forall>x\<in>set items. resolvable rt d x) \<and>
    (\<forall>p\<in>set (Product d). \<not> isNaN rt (price p)) \<and>
    computed_total rt d items = Some tot \<and> \<not> isNaN rt tot \<and>
    Some (generate_orderNumber (date_save e) (length (Order d)))
      \<notin> set (map orderNumber (Order d)) \<longrightarrow>
      (\<exists>ord. post_orders rt e d b = ((201, Doc ord), d\<lparr>Order := Order d @ [ord]\<rparr>) \<and>
             list_all2 (snapshot_of d) items (products ord) \<and>
             totalAmount ord = line_sum 0 (products ord) \<and> totalAmount ord = tot))"
proof (intro conjI impI allI)
  fix g show "fst (post_orders rt e (with_flags g d) b) = fst (post_orders rt e d b)"
    by (rule post_orders_with_flags)
next
  assume a: "req_customer b = Some c \<and> c \<noteq> [] \<and> isObjectId rt c \<and>
    req_products b = Array items \<and> items \<noteq> [] \<and> (\<forall>x\<in>set items. resolvable rt d x) \<and>
    (\<forall>p\<in>set (Product d). \<not> isNaN rt (price p)) \<and>
    computed_total rt d items = Some tot \<and> \<not> isNaN rt tot \<and>
    Some (generate_orderNumber (date_save e) (length (Order d)))
      \<notin> set (map orderNumber (Order d))"
  then have c: "req_customer b = Some c" "isObjectId rt c" and
    sh: "req_products b = Array items" "items \<noteq> []" and
    p: "\<forall>p\<in>set (Product d). \<not> isNaN rt (price p)" and
    t: "computed_total rt d items = Some tot" "\<not> isNaN rt tot" and
    free: "Some (generate_orderNumber (date_save e) (length (Order d)))
             \<notin> set (map orderNumber (Order d))"
    by auto
  from a have tc: "truthy_string (req_customer b)" by simp
  from request_validates[OF c p t, of e] obtain ops where
    r: "resolve_items rt d items 0 [] = Inr (tot, ops)" and
    s: "list_all2 (snapshot_of d) items ops" "tot = line_sum 0 ops" and
    v: "validate rt (new_Order e (req_customer b) ops tot (req_notes b)) = []" by blast
  let ?ord = "(new_Order e (req_customer b) ops tot (req_notes b))
                \<lparr>orderNumber := Some (generate_orderNumber (date_save e) (length (Order d)))\<rparr>"
  have "post_orders rt e d b = ((201, Doc ?ord), d\<lparr>Order := Order d @ [?ord]\<rparr>)"
    unfolding post_orders_Array[OF tc sh] r using free by (simp add: save_new_Order[OF v])
  moreover have "products ?ord = ops" "totalAmount ?ord = tot" by (simp_all add: new_Order_def)
  ultimately show "\<exists>ord. post_orders rt e d b = ((201, Doc ord), d\<lparr>Order := Order d @ [ord]\<rparr>) \<and>
             list_all2 (snapshot_of d) items (products ord) \<and>
             totalAmount ord = line_sum 0 (products ord) \<and> totalAmount ord = tot"
    using s by (intro exI[of _ ?ord]) simp
qed

theorem creation_ignores_active_flag_witness:
  "req_customer body0 = Some cid1 \<and> cid1 \<noteq> [] \<and> isObjectId rt0 cid1 \<and>
   req_products body0 = Array items0 \<and> items0 \<noteq> [] \<and>
   resolvable rt0 db0 (items0 ! 0) \<and> resolvable rt0 db0 (items0 ! 1) \<and> length items0 = 2 \<and>
   \<not> isNaN rt0 (price mug) \<and> \<not> isNaN rt0 (price bag) \<and>
   computed_total rt0 db0 items0 = Some 35 \<and> \<not> isNaN rt0 35 \<and> Order db0 = [] \<and>
   findById p_id (Product db0) pid2 = Some bag \<and> isActive bag = False \<and>
   post_orders rt0 env0 db0 body0 = ((201, Doc ord0), db0\<lparr>Order := [ord0]\<rparr>) \<and>
   products ord0 = [\<lparr>product = pid1, li_quantity = 2, li_price = 10\<rparr>,
                    \<lparr>product = pid2, li_quantity = 3, li_price = price bag\<rparr>] \<and>
   totalAmount ord0 = line_sum 0 (products ord0) \<and> totalAmount ord0 = 35 \<and>
   fst (post_orders rt0 env0 (with_flags (\<lambda>p. True) db0) body0) = (201, Doc ord0)"
proof -
  have c: "req_customer body0 = Some cid1 \<and> cid1 \<noteq> [] \<and> isObjectId rt0 cid1"
    by (simp add: body0_def ids_nonempty rt0_simps ids_hex24)
  have r: "resolvable rt0 db0 (items0 ! 0)" "resolvable rt0 db0 (items0 ! 1)"
    by (rule resolvable_items0, simp add: db0_def)+
  have l: "length items0 = 2" by (simp add: items0_def)
  have h4: "\<forall>x\<in>set items0. resolvable rt0 db0 x"
    using r by (simp add: items0_def)
  have p: "\<forall>p\<in>set (Product db0). \<not> isNaN rt0 (price p)" by (simp add: rt0_simps)
  have t: "computed_total rt0 db0 items0 = Some 35 \<and> \<not> isNaN rt0 35"
    by (simp add: computed_total_def resolve_items0 db0_def rt0_simps)
  have o: "Order db0 = []" by (simp add: db0_def)
  then have h5: "Some (generate_orderNumber (date_save env0) (length (Order db0)))
              \<notin> set (map orderNumber (Order db0))" by simp
  have f: "findById p_id (Product db0) pid2 = Some bag \<and> isActive bag = False"
    by (simp add: db0_def lookup_examples product_examples)
  have li: "products ord0 = [\<lparr>product = pid1, li_quantity = 2, li_price = 10\<rparr>,
                    \<lparr>product = pid2, li_quantity = 3, li_price = price bag\<rparr>] \<and>
           totalAmount ord0 = 35"
    by (simp add: ord0_def lines0_def product_examples)
  from creation_ignores_active_flag[of rt0 env0 db0 body0 cid1 items0 35]
    c body0_shape(2,3) h4 p t h5 post_body0 r l o f li
  show ?thesis by (auto simp: rt0_simps)
qed

theorem resolving_items_not_enough:
  "resolvable rt0 db0 (items0 ! 0) \<and> resolvable rt0 db0 (items0 ! 1) \<and> length items0 = 2 \<and>
   post_orders rt0 env0 db0 (body0\<lparr>req_customer := Some ''c1''\<rparr>) =
     ((500, ErrMessage (ValidationError [''customer''])), db0) \<and>
   post_orders rt0 env0 db0 (body0\<lparr>req_customer := None\<rparr>) =
     ((400, Err ''Customer and products are required''), db0)"
proof -
  let ?b = "body0\<lparr>req_customer := Some ''c1''\<rparr>"
  have r: "resolvable rt0 db0 (items0 ! 0)" "resolvable rt0 db0 (items0 ! 1)"
    by (rule resolvable_items0, simp add: db0_def)+
  have l: "length items0 = 2" by (simp add: items0_def)
  have sh: "truthy_string (req_customer ?b)" "req_products ?b = Array items0" "items0 \<noteq> []"
    by (simp_all add: body0_def items0_def)
  have res: "resolve_items rt0 db0 items0 0 [] = Inr (35, lines0)"
    by (rule resolve_items0) (simp add: db0_def)
  have v: "validate rt0 (new_Order env0 (Some ''c1'') lines0 35 (req_notes body0)) =
             [''customer'']"
    by (simp add: validate_def new_Order_def rt0_simps ids_hex24 lines0_def status_enum_def)
  have a: "post_orders rt0 env0 db0 ?b =
             ((500, ErrMessage (ValidationError [''customer''])), db0)"
    unfolding post_orders_Array[OF sh] res by (simp add: save_def v)
  have b: "post_orders rt0 env0 db0 (body0\<lparr>req_customer := None\<rparr>) =
     ((400, Err ''Customer and products are required''), db0)"
    by (simp add: post_orders_def)
  from r l a b show ?thesis by simp
qed


end
